theory Spec2Isabelle
  imports Main "HOL-Library.Word"
begin

section \<open>JavaScript strings\<close>

text \<open>
  A JavaScript string is a sequence of UTF-16 code units. The text that the page copies
  comes from the network, so it is modelled at that width; identifiers, class names and
  CSS keywords, which the page writes as ASCII literals, are kept as \<open>string\<close>.
\<close>

type_synonym jsstring = "16 word list"

text \<open>
  \<open>String.prototype.trim\<close> removes, at both ends, the code units that ECMAScript calls
  WhiteSpace (TAB, VT, FF, ZWNBSP and the space separators) or LineTerminator
  (LF, CR, LS, PS).
\<close>

definition is_white_space :: "16 word \<Rightarrow> bool" where
  "is_white_space c \<longleftrightarrow>
     c \<in> {0x0009, 0x000B, 0x000C, 0xFEFF, 0x0020, 0x00A0, 0x1680, 0x202F, 0x205F, 0x3000,
          0x000A, 0x000D, 0x2028, 0x2029}
     \<or> (0x2000 \<le> c \<and> c \<le> 0x200A)"

definition trim :: "jsstring \<Rightarrow> jsstring" where
  "trim s = rev (dropWhile is_white_space (rev (dropWhile is_white_space s)))"

text \<open>An ASCII literal as a JavaScript string.\<close>

definition js_literal :: "string \<Rightarrow> jsstring" where
  "js_literal = map of_char"

section \<open>Elements, documents and styling\<close>

text \<open>
  Of an element the page uses its \<open>id\<close>, its tag and class (which select the style rules),
  the \<open>display\<close> property of its inline style (\<open>element.style.display\<close>, the empty string
  when unset) and its text (\<open>innerText\<close>). A document is the list of its elements in tree
  order; \<open>getElementById\<close> returns the first element with the identifier, or nothing
  (JavaScript's \<open>null\<close>).
\<close>

record element =
  elem_id :: string
  tagName :: string
  className :: string
  style_display :: string
  innerText :: jsstring

type_synonym document = "element list"

definition getElementById :: "document \<Rightarrow> string \<Rightarrow> element option" where
  "getElementById d i = find (\<lambda>e. elem_id e = i) d"

text \<open>
  Elements are objects held by reference: a write through the reference that
  \<open>getElementById d i\<close> returned changes that element of the document in place.
\<close>

fun update_element :: "string \<Rightarrow> (element \<Rightarrow> element) \<Rightarrow> document \<Rightarrow> document" where
  "update_element i f [] = []"
| "update_element i f (e # es) =
     (if elem_id e = i then f e # es else e # update_element i f es)"

text \<open>
  The style sheet of the page (lines 17 to 49): the only rule that declares \<open>display\<close> is
  \<open>.alert-box { display: none; ... }\<close>. An inline style wins over the sheet, and the sheet
  over the default of the tag.
\<close>

definition stylesheet_display :: "string \<Rightarrow> string option" where
  "stylesheet_display cls = (if cls = ''alert-box'' then Some ''none'' else None)"

definition computed_display :: "element \<Rightarrow> string" where
  "computed_display e =
     (if style_display e \<noteq> [] then style_display e
      else case stylesheet_display (className e) of
             Some v \<Rightarrow> v
           | None \<Rightarrow> (if tagName e = ''span'' then ''inline'' else ''block''))"

definition visible :: "element \<Rightarrow> bool" where
  "visible e \<longleftrightarrow> computed_display e \<noteq> ''none''"

text \<open>
  The body of the template (lines 81 to 95), as the elements that carry an identifier. The
  three placeholders \<open>{{temperature}}\<close>, \<open>{{distance}}\<close> and \<open>{{alertMessage}}\<close> are filled
  in by the server, which is not part of this file: the arguments are the texts put in
  their place. The enclosing \<open>body\<close>, \<open>div.data-container\<close> and \<open>p\<close> elements have no
  identifier and no rule that hides them.
\<close>

definition PAGE_MAIN :: "jsstring \<Rightarrow> jsstring \<Rightarrow> jsstring \<Rightarrow> document" where
  "PAGE_MAIN temperature distance alertMessage =
     [\<lparr>elem_id = ''alertBox'', tagName = ''div'', className = ''alert-box'',
        style_display = [], innerText = []\<rparr>,
      \<lparr>elem_id = ''temperature'', tagName = ''span'', className = [],
        style_display = [], innerText = temperature\<rparr>,
      \<lparr>elem_id = ''distance'', tagName = ''span'', className = [],
        style_display = [], innerText = distance\<rparr>,
      \<lparr>elem_id = ''alertMessage'', tagName = ''div'', className = [],
        style_display = ''none'', innerText = alertMessage\<rparr>]"

section \<open>Promises\<close>

text \<open>
  A settled promise is fulfilled with a value or rejected with an error. \<open>p.then(f)\<close> runs
  \<open>f\<close> on the value of a fulfilled \<open>p\<close> and passes a rejection on; \<open>p.catch(h)\<close> runs \<open>h\<close> on
  the error of a rejected \<open>p\<close> and passes a value on. A handler may change the page, so
  the page is threaded through, and an exception thrown by a handler is the rejection it
  returns.
\<close>

datatype js_error = NetworkError | BodyError | TypeError

datatype 'a promise = Fulfilled 'a | Rejected js_error

definition then_promise ::
  "'a promise \<times> 's \<Rightarrow> ('a \<Rightarrow> 's \<Rightarrow> 'b promise \<times> 's) \<Rightarrow> 'b promise \<times> 's" where
  "then_promise ps f =
     (case ps of (Fulfilled v, s) \<Rightarrow> f v s | (Rejected e, s) \<Rightarrow> (Rejected e, s))"

definition catch_promise ::
  "'a promise \<times> 's \<Rightarrow> (js_error \<Rightarrow> 's \<Rightarrow> 'a promise \<times> 's) \<Rightarrow> 'a promise \<times> 's" where
  "catch_promise ps h =
     (case ps of (Fulfilled v, s) \<Rightarrow> (Fulfilled v, s) | (Rejected e, s) \<Rightarrow> h e s)"

section \<open>The refresh cycle\<close>

text \<open>
  What \<open>fetch("/")\<close> settles to is an input of the cycle: a rejection (the request could
  not complete) or a response, of any status code, whose \<open>text()\<close> settles to the body or
  to a rejection. The state is the live document and the console.
\<close>

record response =
  status :: nat
  response_text :: "jsstring promise"

record page =
  document :: document
  console :: "js_error list"

text \<open>
  Lines 61 and 62,
  \<^verbatim>\<open>document.getElementById(i).innerText = doc.getElementById(i).innerText;\<close>
  reading a property of \<open>null\<close>, or writing one, throws a TypeError and writes nothing.
\<close>

definition copy_innerText :: "string \<Rightarrow> document \<Rightarrow> page \<Rightarrow> js_error + page" where
  "copy_innerText i doc pg =
     (let target = getElementById (document pg) i in
      case getElementById doc i of
        None \<Rightarrow> Inl TypeError
      | Some source \<Rightarrow>
          (case target of
             None \<Rightarrow> Inl TypeError
           | Some _ \<Rightarrow>
               Inr (pg\<lparr>document :=
                     update_element i (\<lambda>e. e\<lparr>innerText := innerText source\<rparr>) (document pg)\<rparr>)))"

text \<open>\<^verbatim>\<open>response => response.text()\<close> (line 56).\<close>

definition on_response :: "response \<Rightarrow> page \<Rightarrow> jsstring promise \<times> page" where
  "on_response response pg = (response_text response, pg)"

text \<open>
  Lines 64 to 72: the reference to the alert box is taken first, then the new message is
  read, then the box is written through the reference.
\<close>

definition update_alert :: "document \<Rightarrow> page \<Rightarrow> unit promise \<times> page" where
  "update_alert doc pg =
     (let alertBox = getElementById (document pg) ''alertBox'' in
      case getElementById doc ''alertMessage'' of
        None \<Rightarrow> (Rejected TypeError, pg)
      | Some message \<Rightarrow>
          (let newAlertMessage = innerText message in
           if trim newAlertMessage \<noteq> [] then
             (case alertBox of
                None \<Rightarrow> (Rejected TypeError, pg)
              | Some _ \<Rightarrow>
                  (Fulfilled (),
                   pg\<lparr>document :=
                     update_element ''alertBox''
                       (\<lambda>e. e\<lparr>innerText := newAlertMessage, style_display := ''block''\<rparr>)
                       (document pg)\<rparr>))
           else
             (case alertBox of
                None \<Rightarrow> (Rejected TypeError, pg)
              | Some _ \<Rightarrow>
                  (Fulfilled (),
                   pg\<lparr>document :=
                     update_element ''alertBox'' (\<lambda>e. e\<lparr>style_display := ''none''\<rparr>)
                       (document pg)\<rparr>))))"

text \<open>
  \<^verbatim>\<open>html => { ... }\<close> (lines 57 to 73). \<open>DOMParser.parseFromString\<close> belongs to the
  browser and is a parameter; for \<open>"text/html"\<close> it returns a document for every input and
  never throws. The statements run in the order written, and a statement that throws
  leaves the writes of the statements before it in place.
\<close>

definition on_html :: "(jsstring \<Rightarrow> document) \<Rightarrow> jsstring \<Rightarrow> page \<Rightarrow> unit promise \<times> page" where
  "on_html parseFromString html pg =
     (let doc = parseFromString html in
      case copy_innerText ''temperature'' doc pg of
        Inl e \<Rightarrow> (Rejected e, pg)
      | Inr pg1 \<Rightarrow>
          (case copy_innerText ''distance'' doc pg1 of
             Inl e \<Rightarrow> (Rejected e, pg1)
           | Inr pg2 \<Rightarrow> update_alert doc pg2))"

text \<open>\<^verbatim>\<open>error => console.error("Error fetching data:", error)\<close> (line 74).\<close>

definition console_error :: "js_error \<Rightarrow> page \<Rightarrow> unit promise \<times> page" where
  "console_error error pg = (Fulfilled (), pg\<lparr>console := console pg @ [error]\<rparr>)"

text \<open>
  The chain of lines 55 to 73, before the \<open>catch\<close>: the cycle fails when this promise is
  rejected.
\<close>

definition fetch_then :: "(jsstring \<Rightarrow> document) \<Rightarrow> response promise \<Rightarrow> page \<Rightarrow> unit promise \<times> page" where
  "fetch_then parseFromString fetched pg =
     then_promise (then_promise (fetched, pg) on_response) (on_html parseFromString)"

text \<open>
  \<open>fetchData\<close> (lines 54 to 75). The promise returned is the one the \<open>catch\<close> yields: a
  rejection of it would reach the runtime unhandled.
\<close>

definition fetchData :: "(jsstring \<Rightarrow> document) \<Rightarrow> response promise \<Rightarrow> page \<Rightarrow> unit promise \<times> page" where
  "fetchData parseFromString fetched pg =
     catch_promise (fetch_then parseFromString fetched pg) console_error"

section \<open>What is on screen\<close>

definition region_text :: "page \<Rightarrow> string \<Rightarrow> jsstring option" where
  "region_text pg i = map_option innerText (getElementById (document pg) i)"

definition alert_region :: "page \<Rightarrow> (jsstring \<times> bool) option" where
  "alert_region pg =
     map_option (\<lambda>e. (innerText e, visible e)) (getElementById (document pg) ''alertBox'')"

definition display_state ::
  "page \<Rightarrow> jsstring option \<times> jsstring option \<times> (jsstring \<times> bool) option" where
  "display_state pg = (region_text pg ''temperature'', region_text pg ''distance'', alert_region pg)"

definition live_regions :: "page \<Rightarrow> bool" where
  "live_regions pg \<longleftrightarrow>
     getElementById (document pg) ''temperature'' \<noteq> None \<and>
     getElementById (document pg) ''distance'' \<noteq> None \<and>
     getElementById (document pg) ''alertBox'' \<noteq> None"

text \<open>A parser that yields the document \<open>d\<close> for every body: a stand-in for concrete runs.\<close>

definition parser_returning :: "document \<Rightarrow> jsstring \<Rightarrow> document" where
  "parser_returning d html = d"

text \<open>
  The page as first loaded: the template with the server's texts, nothing logged yet.
\<close>

definition page_load :: "jsstring \<Rightarrow> jsstring \<Rightarrow> jsstring \<Rightarrow> page" where
  "page_load temperature distance alertMessage =
     \<lparr>document = PAGE_MAIN temperature distance alertMessage, console = []\<rparr>"

text \<open>What \<open>fetch\<close> settles to when a response with this status code and body arrives.\<close>

definition http_response :: "nat \<Rightarrow> jsstring \<Rightarrow> response promise" where
  "http_response code html = Fulfilled \<lparr>status = code, response_text = Fulfilled html\<rparr>"

text \<open>
  Elements for concrete runs, as a body such as
  \<^verbatim>\<open><span id=temperature>72</span><span id=distance>15</span>\<close> parses to them.
\<close>

definition span_element :: "string \<Rightarrow> jsstring \<Rightarrow> element" where
  "span_element i t =
     \<lparr>elem_id = i, tagName = ''span'', className = [], style_display = [], innerText = t\<rparr>"

definition div_element :: "string \<Rightarrow> jsstring \<Rightarrow> element" where
  "div_element i t =
     \<lparr>elem_id = i, tagName = ''div'', className = [], style_display = [], innerText = t\<rparr>"

text \<open>
  A cycle fails before its first write when the request or the reading of the body is
  rejected, or the temperature element is missing from the parsed or from the live
  document.
\<close>

definition fails_before_first_write ::
  "(jsstring \<Rightarrow> document) \<Rightarrow> response promise \<Rightarrow> page \<Rightarrow> bool" where
  "fails_before_first_write parseFromString fetched pg =
     (case fetched of
        Rejected _ \<Rightarrow> True
      | Fulfilled r \<Rightarrow>
          (case response_text r of
             Rejected _ \<Rightarrow> True
           | Fulfilled html \<Rightarrow>
               getElementById (parseFromString html) ''temperature'' = None \<or>
               getElementById (document pg) ''temperature'' = None))"

section \<open>Basic facts\<close>

lemma dropWhile_all_iff: "(\<forall>x \<in> set (dropWhile P xs). P x) \<longleftrightarrow> (\<forall>x \<in> set xs. P x)"
  by (induction xs) auto

lemma trim_Nil_iff: "trim s = [] \<longleftrightarrow> (\<forall>c \<in> set s. is_white_space c)"
  by (simp add: trim_def dropWhile_all_iff)

lemma getElementById_update_element:
  assumes "\<And>e. elem_id (f e) = elem_id e"
  shows "getElementById (update_element j f d) i =
           (if i = j then map_option f (getElementById d i) else getElementById d i)"
  using assms by (induction d) (auto simp: getElementById_def)

lemma copy_innerText_Inl:
  "copy_innerText i doc pg = Inl e \<longleftrightarrow>
     e = TypeError \<and> (getElementById doc i = None \<or> getElementById (document pg) i = None)"
  by (auto simp: copy_innerText_def Let_def split: option.splits)

lemma copy_innerText_Inr:
  "copy_innerText i doc pg = Inr pg' \<longleftrightarrow>
     (\<exists>src tgt. getElementById doc i = Some src \<and> getElementById (document pg) i = Some tgt \<and>
        pg' = pg\<lparr>document := update_element i (\<lambda>e. e\<lparr>innerText := innerText src\<rparr>) (document pg)\<rparr>)"
  by (auto simp: copy_innerText_def Let_def split: option.splits)

lemma copy_innerText_present:
  assumes "getElementById doc i = Some src" and "getElementById (document pg) i \<noteq> None"
  shows "copy_innerText i doc pg =
           Inr (pg\<lparr>document := update_element i (\<lambda>e. e\<lparr>innerText := innerText src\<rparr>) (document pg)\<rparr>)"
  using assms by (auto simp: copy_innerText_def Let_def split: option.splits)

lemma update_alert_present:
  assumes "getElementById doc ''alertMessage'' = Some m"
    and "getElementById (document pg) ''alertBox'' \<noteq> None"
  shows "update_alert doc pg =
           (Fulfilled (),
            pg\<lparr>document := update_element ''alertBox''
                  (if trim (innerText m) \<noteq> []
                   then (\<lambda>e. e\<lparr>innerText := innerText m, style_display := ''block''\<rparr>)
                   else (\<lambda>e. e\<lparr>style_display := ''none''\<rparr>))
                  (document pg)\<rparr>)"
  using assms by (auto simp: update_alert_def Let_def split: option.splits)

lemma update_alert_Rejected:
  "fst (update_alert doc pg) = Rejected e \<Longrightarrow> update_alert doc pg = (Rejected TypeError, pg)"
  by (auto simp: update_alert_def Let_def split: option.splits if_splits)

lemma update_alert_Rejected_iff:
  "fst (update_alert doc pg) = Rejected e \<longleftrightarrow>
     e = TypeError \<and> (getElementById doc ''alertMessage'' = None \<or> getElementById (document pg) ''alertBox'' = None)"
  by (auto simp: update_alert_def Let_def split: option.splits if_splits)

lemma fetch_then_Rejected [simp]: "fetch_then parse (Rejected e) pg = (Rejected e, pg)"
  by (simp add: fetch_then_def then_promise_def)

lemma fetch_then_Fulfilled:
  "fetch_then parse (Fulfilled r) pg =
     (case response_text r of Rejected e \<Rightarrow> (Rejected e, pg) | Fulfilled html \<Rightarrow> on_html parse html pg)"
  by (simp add: fetch_then_def then_promise_def on_response_def split: promise.splits)

lemma fetchData_eq:
  "fetchData parse fetched pg =
     (case fetch_then parse fetched pg of
        (Fulfilled v, pg') \<Rightarrow> (Fulfilled v, pg')
      | (Rejected e, pg') \<Rightarrow> (Fulfilled (), pg'\<lparr>console := console pg' @ [e]\<rparr>))"
  by (simp add: fetchData_def catch_promise_def console_error_def split: prod.splits promise.splits)

lemma on_html_success:
  assumes "getElementById (parse html) ''temperature'' = Some t"
    and "getElementById (parse html) ''distance'' = Some d"
    and "getElementById (parse html) ''alertMessage'' = Some m"
    and "live_regions pg"
  shows "on_html parse html pg =
           (Fulfilled (),
            pg\<lparr>document :=
              update_element ''alertBox''
                (if trim (innerText m) \<noteq> []
                 then (\<lambda>e. e\<lparr>innerText := innerText m, style_display := ''block''\<rparr>)
                 else (\<lambda>e. e\<lparr>style_display := ''none''\<rparr>))
                (update_element ''distance'' (\<lambda>e. e\<lparr>innerText := innerText d\<rparr>)
                  (update_element ''temperature'' (\<lambda>e. e\<lparr>innerText := innerText t\<rparr>)
                    (document pg)))\<rparr>)"
  using assms
  by (simp add: on_html_def Let_def live_regions_def copy_innerText_present
      update_alert_present getElementById_update_element)

lemma on_html_alertBox:
  assumes "fst (on_html parse html pg) = Rejected e"
  shows "getElementById (document (snd (on_html parse html pg))) ''alertBox'' =
           getElementById (document pg) ''alertBox''"
proof (cases "copy_innerText ''temperature'' (parse html) pg")
  case (Inl a)
  then show ?thesis by (simp add: on_html_def)
next
  case t: (Inr pg1)
  then have d1: "getElementById (document pg1) ''alertBox'' = getElementById (document pg) ''alertBox''"
    by (auto simp: copy_innerText_Inr getElementById_update_element)
  show ?thesis
  proof (cases "copy_innerText ''distance'' (parse html) pg1")
    case (Inl a)
    with t d1 show ?thesis by (simp add: on_html_def)
  next
    case d: (Inr pg2)
    then have d2: "getElementById (document pg2) ''alertBox'' = getElementById (document pg1) ''alertBox''"
      by (auto simp: copy_innerText_Inr getElementById_update_element)
    from assms t d have "fst (update_alert (parse html) pg2) = Rejected e"
      by (simp add: on_html_def)
    then have "update_alert (parse html) pg2 = (Rejected TypeError, pg2)"
      by (rule update_alert_Rejected)
    with t d d1 d2 show ?thesis by (simp add: on_html_def)
  qed
qed

lemma on_html_console: "console (snd (on_html parse html pg)) = console pg"
  by (auto simp: on_html_def Let_def copy_innerText_Inr update_alert_def split: sum.splits option.splits)

lemma on_html_Fulfilled_iff:
  "fst (on_html parse html pg) = Fulfilled () \<longleftrightarrow>
     getElementById (parse html) ''temperature'' \<noteq> None \<and>
     getElementById (parse html) ''distance'' \<noteq> None \<and>
     getElementById (parse html) ''alertMessage'' \<noteq> None \<and> live_regions pg"
  by (auto simp: on_html_def Let_def copy_innerText_Inr copy_innerText_Inl live_regions_def
      getElementById_update_element update_alert_def split: sum.splits option.splits if_splits)

lemma fetchData_success:
  assumes "response_text r = Fulfilled html"
    and "getElementById (parse html) ''temperature'' = Some t"
    and "getElementById (parse html) ''distance'' = Some d"
    and "getElementById (parse html) ''alertMessage'' = Some m"
    and "live_regions pg"
  shows "fetchData parse (Fulfilled r) pg =
           (Fulfilled (),
            pg\<lparr>document :=
              update_element ''alertBox''
                (if trim (innerText m) \<noteq> []
                 then (\<lambda>e. e\<lparr>innerText := innerText m, style_display := ''block''\<rparr>)
                 else (\<lambda>e. e\<lparr>style_display := ''none''\<rparr>))
                (update_element ''distance'' (\<lambda>e. e\<lparr>innerText := innerText d\<rparr>)
                  (update_element ''temperature'' (\<lambda>e. e\<lparr>innerText := innerText t\<rparr>)
                    (document pg)))\<rparr>)"
  using assms by (simp add: fetchData_eq fetch_then_Fulfilled on_html_success)

lemma visible_block [simp]: "visible (e\<lparr>style_display := ''block''\<rparr>)"
  by (simp add: visible_def computed_display_def)

lemma visible_none [simp]: "\<not> visible (e\<lparr>style_display := ''none''\<rparr>)"
  by (simp add: visible_def computed_display_def)

lemma fetch_then_Fulfilled_iff:
  "fst (fetch_then parse fetched pg) = Fulfilled () \<longleftrightarrow>
     (\<exists>r html. fetched = Fulfilled r \<and> response_text r = Fulfilled html \<and>
        getElementById (parse html) ''temperature'' \<noteq> None \<and>
        getElementById (parse html) ''distance'' \<noteq> None \<and>
        getElementById (parse html) ''alertMessage'' \<noteq> None \<and> live_regions pg)"
  by (cases fetched) (auto simp: fetch_then_Fulfilled on_html_Fulfilled_iff split: promise.splits)

lemmas run_defs =
  fetchData_def catch_promise_def fetch_then_def then_promise_def on_response_def on_html_def
  copy_innerText_def update_alert_def console_error_def getElementById_def PAGE_MAIN_def
  page_load_def http_response_def parser_returning_def span_element_def div_element_def
  js_literal_def trim_def is_white_space_def region_text_def alert_region_def
  display_state_def live_regions_def visible_def computed_display_def stylesheet_display_def
  fails_before_first_write_def Let_def

lemma fetch_then_console: "console (snd (fetch_then parse fetched pg)) = console pg"
  by (cases fetched) (auto simp: fetch_then_Fulfilled on_html_console split: promise.splits)

lemma fetch_then_alertBox:
  "fst (fetch_then parse fetched pg) = Rejected e \<Longrightarrow>
   getElementById (document (snd (fetch_then parse fetched pg))) ''alertBox'' =
     getElementById (document pg) ''alertBox''"
  by (cases fetched) (auto simp: fetch_then_Fulfilled on_html_alertBox split: promise.splits)

lemma on_html_no_temperature:
  "getElementById (parse html) ''temperature'' = None \<or>
   getElementById (document pg) ''temperature'' = None
   \<Longrightarrow> on_html parse html pg = (Rejected TypeError, pg)"
  by (auto simp: on_html_def copy_innerText_def Let_def split: option.splits)

lemma fetch_then_before_first_write:
  "fails_before_first_write parse fetched pg \<Longrightarrow> snd (fetch_then parse fetched pg) = pg"
  by (cases fetched)
    (auto simp: fails_before_first_write_def fetch_then_Fulfilled on_html_no_temperature
      split: promise.splits)

lemma fetch_then_http_response [simp]:
  "fetch_then parse (http_response code html) pg = on_html parse html pg"
  by (simp add: http_response_def fetch_then_Fulfilled)

lemma fetchData_http_success:
  assumes "getElementById (parse html) ''temperature'' = Some t"
    and "getElementById (parse html) ''distance'' = Some d"
    and "getElementById (parse html) ''alertMessage'' = Some m"
    and "live_regions pg"
  shows "fetchData parse (http_response code html) pg =
           (Fulfilled (),
            pg\<lparr>document :=
              update_element ''alertBox''
                (if trim (innerText m) \<noteq> []
                 then (\<lambda>e. e\<lparr>innerText := innerText m, style_display := ''block''\<rparr>)
                 else (\<lambda>e. e\<lparr>style_display := ''none''\<rparr>))
                (update_element ''distance'' (\<lambda>e. e\<lparr>innerText := innerText d\<rparr>)
                  (update_element ''temperature'' (\<lambda>e. e\<lparr>innerText := innerText t\<rparr>)
                    (document pg)))\<rparr>)"
  unfolding http_response_def
  by (rule fetchData_success [where html = html]) (simp_all add: assms)

lemma display_state_console [simp]: "display_state (pg\<lparr>console := c\<rparr>) = display_state pg"
  by (simp add: display_state_def region_text_def alert_region_def)

lemma display_state_fetchData:
  "display_state (snd (fetchData parse fetched pg)) = display_state (snd (fetch_then parse fetched pg))"
  by (simp add: fetchData_eq split: prod.splits promise.splits)

lemma on_html_display_cong:
  assumes "display_state pg1 = display_state pg2"
  shows "display_state (snd (on_html parse html pg1)) = display_state (snd (on_html parse html pg2))"
  using assms
  by (auto simp: on_html_def Let_def copy_innerText_def update_alert_def display_state_def
      region_text_def alert_region_def getElementById_update_element split: option.splits)

section \<open>Failing cycles\<close>

text \<open>
  C1 (as amended). A cycle fails when the promise that reaches the \<open>catch\<close> is rejected. In
  every failing cycle no exception escapes (the promise \<open>fetchData\<close> leaves behind is
  fulfilled), the error is logged, and the alert region keeps its value. When the cycle
  fails before its first write (the request or the reading of the body is rejected, or
  the temperature element is missing), all three regions keep their values. The page has
  no rollback: a region written before the failing statement keeps the new text.
\<close>

theorem failure_keeps_unwritten_regions:
  assumes "fst (fetch_then parse fetched pg) = Rejected err"
  shows "fst (fetchData parse fetched pg) = Fulfilled () \<and>
         console (snd (fetchData parse fetched pg)) = console pg @ [err] \<and>
         alert_region (snd (fetchData parse fetched pg)) = alert_region pg \<and>
         (fails_before_first_write parse fetched pg \<longrightarrow>
            display_state (snd (fetchData parse fetched pg)) = display_state pg)"
proof -
  obtain pg' where ft: "fetch_then parse fetched pg = (Rejected err, pg')"
    using assms by (cases "fetch_then parse fetched pg") auto
  then have res: "fetchData parse fetched pg = (Fulfilled (), pg'\<lparr>console := console pg' @ [err]\<rparr>)"
    by (simp add: fetchData_eq)
  from ft fetch_then_console [of parse fetched pg] have c: "console pg' = console pg"
    by simp
  from ft fetch_then_alertBox [OF assms]
  have a: "getElementById (document pg') ''alertBox'' = getElementById (document pg) ''alertBox''"
    by simp
  have w: "pg' = pg" if "fails_before_first_write parse fetched pg"
    using fetch_then_before_first_write [OF that] ft by simp
  from c a w show ?thesis
    by (auto simp: res alert_region_def)
qed

text \<open>
  An empty body, in which no element is found: the cycle fails at line 61, the TypeError
  is logged, and the page still shows 70, 10 and no alert.
\<close>

theorem failure_keeps_unwritten_regions_witness:
  "fst (fetch_then (parser_returning []) (http_response 200 [])
          (page_load (js_literal ''70'') (js_literal ''10'') [])) = Rejected TypeError \<and>
   fails_before_first_write (parser_returning []) (http_response 200 [])
          (page_load (js_literal ''70'') (js_literal ''10'') []) \<and>
   fst (fetchData (parser_returning []) (http_response 200 [])
          (page_load (js_literal ''70'') (js_literal ''10'') [])) = Fulfilled () \<and>
   console (snd (fetchData (parser_returning []) (http_response 200 [])
          (page_load (js_literal ''70'') (js_literal ''10'') []))) = [TypeError] \<and>
   display_state (snd (fetchData (parser_returning []) (http_response 200 [])
          (page_load (js_literal ''70'') (js_literal ''10'') []))) =
     (Some (js_literal ''70''), Some (js_literal ''10''), Some ([], False))"
proof -
  have failed: "fst (fetch_then (parser_returning []) (http_response 200 [])
          (page_load (js_literal ''70'') (js_literal ''10'') [])) = Rejected TypeError"
    by (simp add: run_defs)
  have early: "fails_before_first_write (parser_returning []) (http_response 200 [])
          (page_load (js_literal ''70'') (js_literal ''10'') [])"
    by (simp add: run_defs)
  have before: "display_state (page_load (js_literal ''70'') (js_literal ''10'') []) =
     (Some (js_literal ''70''), Some (js_literal ''10''), Some ([], False))"
    by (simp add: run_defs)
  have "console (page_load (js_literal ''70'') (js_literal ''10'') []) = []"
    by (simp add: page_load_def)
  with failure_keeps_unwritten_regions [OF failed] failed early before show ?thesis
    by simp
qed

text \<open>
  C1 as stated fails: with a body that has the temperature and distance elements and no
  \<open>alertMessage\<close> element the cycle fails, and the page that showed 70 and 10 shows 72
  and 15.
\<close>

theorem failure_keeps_all_regions_counterexample:
  "fst (fetch_then
          (parser_returning [span_element ''temperature'' (js_literal ''72''),
                             span_element ''distance'' (js_literal ''15'')])
          (http_response 200 [])
          (page_load (js_literal ''70'') (js_literal ''10'') [])) = Rejected TypeError \<and>
   display_state (page_load (js_literal ''70'') (js_literal ''10'') []) =
     (Some (js_literal ''70''), Some (js_literal ''10''), Some ([], False)) \<and>
   display_state (snd (fetchData
          (parser_returning [span_element ''temperature'' (js_literal ''72''),
                             span_element ''distance'' (js_literal ''15'')])
          (http_response 200 [])
          (page_load (js_literal ''70'') (js_literal ''10'') []))) =
     (Some (js_literal ''72''), Some (js_literal ''15''), Some ([], False))"
  by (simp add: run_defs)

text \<open>
  C8. The writes happen in the order temperature, distance, alert. When the parsed
  document has the temperature element and lacks the distance element or the
  \<open>alertMessage\<close> element, the cycle fails with a TypeError that is caught and logged,
  after the temperature, and the distance if it is there, have been written; the alert
  region is not touched.
\<close>

theorem writes_in_order:
  assumes "getElementById (parse html) ''temperature'' = Some t"
    and "getElementById (parse html) ''distance'' = None \<or>
         getElementById (parse html) ''alertMessage'' = None"
    and "live_regions pg"
  shows "fst (fetch_then parse (http_response code html) pg) = Rejected TypeError \<and>
         fst (fetchData parse (http_response code html) pg) = Fulfilled () \<and>
         console (snd (fetchData parse (http_response code html) pg)) = console pg @ [TypeError] \<and>
         display_state (snd (fetchData parse (http_response code html) pg)) =
           (Some (innerText t),
            (case getElementById (parse html) ''distance'' of
               None \<Rightarrow> region_text pg ''distance''
             | Some d \<Rightarrow> Some (innerText d)),
            alert_region pg)"
proof -
  from assms(3) obtain lt ld la where live:
    "getElementById (document pg) ''temperature'' = Some lt"
    "getElementById (document pg) ''distance'' = Some ld"
    "getElementById (document pg) ''alertBox'' = Some la"
    by (auto simp: live_regions_def)
  let ?pg1 = "pg\<lparr>document :=
     update_element ''temperature'' (\<lambda>e. e\<lparr>innerText := innerText t\<rparr>) (document pg)\<rparr>"
  have t: "copy_innerText ''temperature'' (parse html) pg = Inr ?pg1"
    using assms(1) live by (simp add: copy_innerText_present)
  show ?thesis
  proof (cases "getElementById (parse html) ''distance''")
    case None
    then have "on_html parse html pg = (Rejected TypeError, ?pg1)"
      using t by (simp add: on_html_def copy_innerText_def)
    then show ?thesis
      using None live
      by (simp add: fetchData_eq display_state_def region_text_def alert_region_def
          getElementById_update_element)
  next
    case (Some d)
    let ?pg2 = "?pg1\<lparr>document :=
      update_element ''distance'' (\<lambda>e. e\<lparr>innerText := innerText d\<rparr>) (document ?pg1)\<rparr>"
    have d: "copy_innerText ''distance'' (parse html) ?pg1 = Inr ?pg2"
      using Some live by (simp add: copy_innerText_present getElementById_update_element)
    from Some assms(2) have "getElementById (parse html) ''alertMessage'' = None"
      by simp
    then have "on_html parse html pg = (Rejected TypeError, ?pg2)"
      using t d by (simp add: on_html_def update_alert_def)
    then show ?thesis
      using Some live
      by (simp add: fetchData_eq display_state_def region_text_def alert_region_def
          getElementById_update_element)
  qed
qed

theorem writes_in_order_witness:
  "display_state (page_load (js_literal ''68'') (js_literal ''40'') []) =
     (Some (js_literal ''68''), Some (js_literal ''40''), Some ([], False)) \<and>
   fst (fetch_then
          (parser_returning [span_element ''temperature'' (js_literal ''71''),
                             span_element ''distance'' (js_literal ''12'')])
          (http_response 200 [])
          (page_load (js_literal ''68'') (js_literal ''40'') [])) = Rejected TypeError \<and>
   console (snd (fetchData
          (parser_returning [span_element ''temperature'' (js_literal ''71''),
                             span_element ''distance'' (js_literal ''12'')])
          (http_response 200 [])
          (page_load (js_literal ''68'') (js_literal ''40'') []))) = [TypeError] \<and>
   display_state (snd (fetchData
          (parser_returning [span_element ''temperature'' (js_literal ''71''),
                             span_element ''distance'' (js_literal ''12'')])
          (http_response 200 [])
          (page_load (js_literal ''68'') (js_literal ''40'') []))) =
     (Some (js_literal ''71''), Some (js_literal ''12''), Some ([], False))"
proof -
  have before: "display_state (page_load (js_literal ''68'') (js_literal ''40'') []) =
     (Some (js_literal ''68''), Some (js_literal ''40''), Some ([], False))"
    by (simp add: run_defs)
  have "fst (fetch_then
          (parser_returning [span_element ''temperature'' (js_literal ''71''),
                             span_element ''distance'' (js_literal ''12'')])
          (http_response 200 [])
          (page_load (js_literal ''68'') (js_literal ''40'') [])) = Rejected TypeError \<and>
        fst (fetchData
          (parser_returning [span_element ''temperature'' (js_literal ''71''),
                             span_element ''distance'' (js_literal ''12'')])
          (http_response 200 [])
          (page_load (js_literal ''68'') (js_literal ''40'') [])) = Fulfilled () \<and>
        console (snd (fetchData
          (parser_returning [span_element ''temperature'' (js_literal ''71''),
                             span_element ''distance'' (js_literal ''12'')])
          (http_response 200 [])
          (page_load (js_literal ''68'') (js_literal ''40'') []))) =
          console (page_load (js_literal ''68'') (js_literal ''40'') []) @ [TypeError] \<and>
        display_state (snd (fetchData
          (parser_returning [span_element ''temperature'' (js_literal ''71''),
                             span_element ''distance'' (js_literal ''12'')])
          (http_response 200 [])
          (page_load (js_literal ''68'') (js_literal ''40'') []))) =
          (Some (innerText (span_element ''temperature'' (js_literal ''71''))),
           (case getElementById
                   (parser_returning [span_element ''temperature'' (js_literal ''71''),
                                      span_element ''distance'' (js_literal ''12'')] [])
                   ''distance'' of
              None \<Rightarrow> region_text (page_load (js_literal ''68'') (js_literal ''40'') []) ''distance''
            | Some d \<Rightarrow> Some (innerText d)),
           alert_region (page_load (js_literal ''68'') (js_literal ''40'') []))"
    by (rule writes_in_order) (simp_all add: run_defs)
  with before show ?thesis
    by (simp add: run_defs)
qed

section \<open>Successful cycles\<close>

text \<open>
  C4. In every successful cycle the response was fulfilled with a body whose parsed
  document has the temperature and distance elements, and the text shown for each is
  exactly the text of that element: nothing is converted or rounded on the way.
\<close>

theorem field_passthrough:
  assumes "fst (fetch_then parse fetched pg) = Fulfilled ()"
  shows "\<exists>r html t d. fetched = Fulfilled r \<and> response_text r = Fulfilled html \<and>
           getElementById (parse html) ''temperature'' = Some t \<and>
           getElementById (parse html) ''distance'' = Some d \<and>
           region_text (snd (fetchData parse fetched pg)) ''temperature'' = Some (innerText t) \<and>
           region_text (snd (fetchData parse fetched pg)) ''distance'' = Some (innerText d)"
proof -
  from assms obtain r html t d m where f: "fetched = Fulfilled r" "response_text r = Fulfilled html"
    and el: "getElementById (parse html) ''temperature'' = Some t"
      "getElementById (parse html) ''distance'' = Some d"
      "getElementById (parse html) ''alertMessage'' = Some m"
    and live: "live_regions pg"
    by (auto simp: fetch_then_Fulfilled_iff)
  from live have "region_text (snd (fetchData parse (Fulfilled r) pg)) ''temperature'' = Some (innerText t)"
    and "region_text (snd (fetchData parse (Fulfilled r) pg)) ''distance'' = Some (innerText d)"
    by (auto simp: fetchData_success [where parse = parse, OF f(2) el live] region_text_def
        live_regions_def getElementById_update_element)
  with f el show ?thesis by blast
qed

text \<open>A reading with a decimal point and a trailing zero is shown as it was sent.\<close>

theorem field_passthrough_witness:
  "fst (fetch_then
         (parser_returning (PAGE_MAIN (js_literal ''72.50'') (js_literal ''015'') []))
         (http_response 200 [])
         (page_load (js_literal ''70'') (js_literal ''10'') [])) = Fulfilled () \<and>
   region_text (snd (fetchData
         (parser_returning (PAGE_MAIN (js_literal ''72.50'') (js_literal ''015'') []))
         (http_response 200 [])
         (page_load (js_literal ''70'') (js_literal ''10'') []))) ''temperature'' =
     Some (js_literal ''72.50'') \<and>
   region_text (snd (fetchData
         (parser_returning (PAGE_MAIN (js_literal ''72.50'') (js_literal ''015'') []))
         (http_response 200 [])
         (page_load (js_literal ''70'') (js_literal ''10'') []))) ''distance'' =
     Some (js_literal ''015'')"
proof -
  have ok: "fst (fetch_then
         (parser_returning (PAGE_MAIN (js_literal ''72.50'') (js_literal ''015'') []))
         (http_response 200 [])
         (page_load (js_literal ''70'') (js_literal ''10'') [])) = Fulfilled ()"
    by (simp add: run_defs)
  from field_passthrough [OF ok] ok show ?thesis
    by (auto simp: parser_returning_def PAGE_MAIN_def getElementById_def)
qed

text \<open>
  C2 (as amended). When the parsed document has the three elements and the text of its
  \<open>alertMessage\<close> element is not blank, the alert box is visible after the cycle and its
  text is that message as it was read: \<open>trim\<close> is applied in the test of line 67 only,
  and line 68 assigns the untrimmed message.
\<close>

theorem alert_activation:
  assumes "getElementById (parse html) ''temperature'' \<noteq> None"
    and "getElementById (parse html) ''distance'' \<noteq> None"
    and "getElementById (parse html) ''alertMessage'' = Some m"
    and "trim (innerText m) \<noteq> []"
    and "live_regions pg"
  shows "alert_region (snd (fetchData parse (http_response code html) pg)) =
           Some (innerText m, True)"
proof -
  from assms(1,2) obtain t d where el: "getElementById (parse html) ''temperature'' = Some t"
    "getElementById (parse html) ''distance'' = Some d" by auto
  from assms(4,5) show ?thesis
    by (auto simp: fetchData_http_success [where parse = parse, OF el assms(3) assms(5)]
        alert_region_def live_regions_def getElementById_update_element)
qed

theorem alert_activation_witness:
  "trim (js_literal '' Hot'') \<noteq> [] \<and>
   alert_region (snd (fetchData
      (parser_returning (PAGE_MAIN (js_literal ''72'') (js_literal ''15'') (js_literal '' Hot'')))
      (http_response 200 [])
      (page_load (js_literal ''70'') (js_literal ''10'') []))) = Some (js_literal '' Hot'', True)"
proof -
  have nonblank: "trim (js_literal '' Hot'') \<noteq> []"
    by (simp add: run_defs)
  have "alert_region (snd (fetchData
      (parser_returning (PAGE_MAIN (js_literal ''72'') (js_literal ''15'') (js_literal '' Hot'')))
      (http_response 200 [])
      (page_load (js_literal ''70'') (js_literal ''10'') []))) =
     Some (innerText ((div_element ''alertMessage'' (js_literal '' Hot''))
                        \<lparr>style_display := ''none''\<rparr>), True)"
    by (rule alert_activation) (simp_all add: run_defs)
  with nonblank show ?thesis
    by (simp add: div_element_def)
qed

text \<open>
  C2 as stated fails: for the message \<open>'' Hot''\<close>, with a leading space, the alert box
  holds the message with its space, which is not the trimmed message.
\<close>

theorem alert_text_trimmed_counterexample:
  "trim (js_literal '' Hot'') = js_literal ''Hot'' \<and>
   alert_region (snd (fetchData
      (parser_returning (PAGE_MAIN (js_literal ''72'') (js_literal ''15'') (js_literal '' Hot'')))
      (http_response 200 [])
      (page_load (js_literal ''70'') (js_literal ''10'') []))) =
     Some (js_literal '' Hot'', True) \<and>
   js_literal '' Hot'' \<noteq> trim (js_literal '' Hot'')"
  by (simp add: run_defs)

text \<open>
  C3 (as amended). When the parsed document has the temperature and distance elements
  as well, and the text of its \<open>alertMessage\<close> element is empty or consists of white space
  only, the alert box is hidden after the cycle, whether or not it was visible before,
  and its text is the text it had before.
\<close>

theorem alert_hidden_when_blank:
  assumes "getElementById (parse html) ''temperature'' \<noteq> None"
    and "getElementById (parse html) ''distance'' \<noteq> None"
    and "getElementById (parse html) ''alertMessage'' = Some m"
    and "\<forall>c \<in> set (innerText m). is_white_space c"
    and "live_regions pg"
  shows "\<exists>txt vis. alert_region pg = Some (txt, vis) \<and>
           alert_region (snd (fetchData parse (http_response code html) pg)) = Some (txt, False)"
proof -
  from assms(1,2) obtain t d where el: "getElementById (parse html) ''temperature'' = Some t"
    "getElementById (parse html) ''distance'' = Some d" by auto
  from assms(4) have "trim (innerText m) = []"
    by (simp add: trim_Nil_iff)
  with assms(5) show ?thesis
    by (auto simp: fetchData_http_success [where parse = parse, OF el assms(3) assms(5)]
        alert_region_def live_regions_def getElementById_update_element)
qed

text \<open>
  Two cycles in a row: the first shows the alert \<open>''Hot''\<close>, the second, whose message is
  a space and a line feed, hides the box and leaves \<open>''Hot''\<close> in it.
\<close>

theorem alert_hidden_when_blank_witness:
  "alert_region (snd (fetchData
      (parser_returning (PAGE_MAIN (js_literal ''72'') (js_literal ''15'') (js_literal ''Hot'')))
      (http_response 200 [])
      (page_load (js_literal ''70'') (js_literal ''10'') []))) = Some (js_literal ''Hot'', True) \<and>
   is_white_space 0x20 \<and> is_white_space 0x0A \<and>
   alert_region (snd (fetchData
      (parser_returning (PAGE_MAIN (js_literal ''71'') (js_literal ''30'') [0x20, 0x0A]))
      (http_response 200 [])
      (snd (fetchData
        (parser_returning (PAGE_MAIN (js_literal ''72'') (js_literal ''15'') (js_literal ''Hot'')))
        (http_response 200 [])
        (page_load (js_literal ''70'') (js_literal ''10'') []))))) =
     Some (js_literal ''Hot'', False)"
proof -
  have first: "alert_region (snd (fetchData
      (parser_returning (PAGE_MAIN (js_literal ''72'') (js_literal ''15'') (js_literal ''Hot'')))
      (http_response 200 [])
      (page_load (js_literal ''70'') (js_literal ''10'') []))) = Some (js_literal ''Hot'', True)"
    by (simp add: run_defs)
  have blank: "is_white_space 0x20 \<and> is_white_space 0x0A"
    by (simp add: is_white_space_def)
  have "\<exists>txt vis.
     alert_region (snd (fetchData
        (parser_returning (PAGE_MAIN (js_literal ''72'') (js_literal ''15'') (js_literal ''Hot'')))
        (http_response 200 [])
        (page_load (js_literal ''70'') (js_literal ''10'') []))) = Some (txt, vis) \<and>
     alert_region (snd (fetchData
        (parser_returning (PAGE_MAIN (js_literal ''71'') (js_literal ''30'') [0x20, 0x0A]))
        (http_response 200 [])
        (snd (fetchData
          (parser_returning (PAGE_MAIN (js_literal ''72'') (js_literal ''15'') (js_literal ''Hot'')))
          (http_response 200 [])
          (page_load (js_literal ''70'') (js_literal ''10'') []))))) = Some (txt, False)"
    by (rule alert_hidden_when_blank
          [where m = "(div_element ''alertMessage'' [0x20, 0x0A])\<lparr>style_display := ''none''\<rparr>"])
       (simp_all add: blank run_defs)
  with first blank show ?thesis
    by auto
qed

text \<open>
  C3 as stated fails: line 71 is reached only after lines 61 and 62 have run. On a page
  that shows the alert \<open>''Hot''\<close>, a document whose \<open>alertMessage\<close> element is empty and
  which has no temperature element fails the cycle at line 61, and the alert stays
  visible.
\<close>

theorem alert_hidden_when_blank_counterexample:
  "map_option innerText
      (getElementById (parser_returning [div_element ''alertMessage'' []] []) ''alertMessage'') =
     Some [] \<and>
   trim [] = [] \<and>
   alert_region (snd (fetchData
      (parser_returning (PAGE_MAIN (js_literal ''72'') (js_literal ''15'') (js_literal ''Hot'')))
      (http_response 200 [])
      (page_load (js_literal ''70'') (js_literal ''10'') []))) = Some (js_literal ''Hot'', True) \<and>
   alert_region (snd (fetchData
      (parser_returning [div_element ''alertMessage'' []])
      (http_response 200 [])
      (snd (fetchData
        (parser_returning (PAGE_MAIN (js_literal ''72'') (js_literal ''15'') (js_literal ''Hot'')))
        (http_response 200 [])
        (page_load (js_literal ''70'') (js_literal ''10'') []))))) =
     Some (js_literal ''Hot'', True)"
  by (simp add: run_defs)

text \<open>
  C5. A body whose parsed document holds 72 in the temperature element, 15 in the
  distance element and \<open>''Object too close!''\<close> in the \<open>alertMessage\<close> element: after one
  cycle the page shows 72 and 15, and the alert is visible with that text.
\<close>

theorem concrete_scenario:
  assumes "map_option innerText (getElementById (parse html) ''temperature'') = Some (js_literal ''72'')"
    and "map_option innerText (getElementById (parse html) ''distance'') = Some (js_literal ''15'')"
    and "map_option innerText (getElementById (parse html) ''alertMessage'') =
           Some (js_literal ''Object too close!'')"
    and "live_regions pg"
  shows "display_state (snd (fetchData parse (http_response code html) pg)) =
           (Some (js_literal ''72''), Some (js_literal ''15''),
            Some (js_literal ''Object too close!'', True))"
proof -
  from assms(1-3) obtain t d m where el: "getElementById (parse html) ''temperature'' = Some t"
    "getElementById (parse html) ''distance'' = Some d"
    "getElementById (parse html) ''alertMessage'' = Some m"
    and tx: "innerText t = js_literal ''72''" "innerText d = js_literal ''15''"
      "innerText m = js_literal ''Object too close!''"
    by auto
  have "trim (js_literal ''Object too close!'') \<noteq> []"
    by (simp add: trim_def js_literal_def is_white_space_def)
  with assms(4) tx show ?thesis
    by (auto simp: fetchData_http_success [where parse = parse, OF el assms(4)] display_state_def
        region_text_def alert_region_def live_regions_def getElementById_update_element)
qed

theorem concrete_scenario_witness:
  "live_regions (page_load (js_literal ''70'') (js_literal ''10'') []) \<and>
   display_state (snd (fetchData
      (parser_returning
         [span_element ''temperature'' (js_literal ''72''),
          span_element ''distance'' (js_literal ''15''),
          div_element ''alertMessage'' (js_literal ''Object too close!'')])
      (http_response 200
         (js_literal ''<span id=temperature>72</span><span id=distance>15</span><div id=alertMessage>Object too close!</div>''))
      (page_load (js_literal ''70'') (js_literal ''10'') []))) =
     (Some (js_literal ''72''), Some (js_literal ''15''),
      Some (js_literal ''Object too close!'', True))"
proof -
  have live: "live_regions (page_load (js_literal ''70'') (js_literal ''10'') [])"
    by (simp add: run_defs)
  have "display_state (snd (fetchData
      (parser_returning
         [span_element ''temperature'' (js_literal ''72''),
          span_element ''distance'' (js_literal ''15''),
          div_element ''alertMessage'' (js_literal ''Object too close!'')])
      (http_response 200
         (js_literal ''<span id=temperature>72</span><span id=distance>15</span><div id=alertMessage>Object too close!</div>''))
      (page_load (js_literal ''70'') (js_literal ''10'') []))) =
     (Some (js_literal ''72''), Some (js_literal ''15''),
      Some (js_literal ''Object too close!'', True))"
    by (rule concrete_scenario)
       (simp_all add: live parser_returning_def getElementById_def span_element_def div_element_def)
  with live show ?thesis
    by simp
qed

section \<open>Status codes\<close>

text \<open>
  C6 (as amended). The cycle never reads the status code of the response (line 56 calls
  \<open>response.text()\<close> on whatever \<open>fetch\<close> resolved to): a response is handled the same
  for every status code, so the body of a non-success response is parsed and shown like
  any other, and the cycle fails on it in the same cases. A rejection of \<open>fetch\<close> itself,
  or of the reading of the body, is logged and leaves the page as it was.
\<close>

theorem status_not_inspected:
  "fetchData parse (Fulfilled (r\<lparr>status := code\<rparr>)) pg = fetchData parse (Fulfilled r) pg \<and>
   fetchData parse (Rejected err) pg = (Fulfilled (), pg\<lparr>console := console pg @ [err]\<rparr>) \<and>
   fetchData parse (Fulfilled (r\<lparr>response_text := Rejected err\<rparr>)) pg =
     (Fulfilled (), pg\<lparr>console := console pg @ [err]\<rparr>)"
  by (simp add: fetchData_eq fetch_then_Fulfilled)

text \<open>
  C6 as stated fails: a response with status 500 whose body parses to the three elements
  is a successful cycle; nothing is logged and the page that showed 70 and 10 shows 72,
  15 and the alert.
\<close>

theorem non_success_status_counterexample:
  "fst (fetch_then
      (parser_returning (PAGE_MAIN (js_literal ''72'') (js_literal ''15'') (js_literal ''Hot'')))
      (http_response 500 [])
      (page_load (js_literal ''70'') (js_literal ''10'') [])) = Fulfilled () \<and>
   console (snd (fetchData
      (parser_returning (PAGE_MAIN (js_literal ''72'') (js_literal ''15'') (js_literal ''Hot'')))
      (http_response 500 [])
      (page_load (js_literal ''70'') (js_literal ''10'') []))) = [] \<and>
   display_state (page_load (js_literal ''70'') (js_literal ''10'') []) =
     (Some (js_literal ''70''), Some (js_literal ''10''), Some ([], False)) \<and>
   display_state (snd (fetchData
      (parser_returning (PAGE_MAIN (js_literal ''72'') (js_literal ''15'') (js_literal ''Hot'')))
      (http_response 500 [])
      (page_load (js_literal ''70'') (js_literal ''10'') []))) =
     (Some (js_literal ''72''), Some (js_literal ''15''), Some (js_literal ''Hot'', True))"
  by (simp add: run_defs)

section \<open>The page as loaded\<close>

text \<open>
  C9. Whatever texts the server puts into the template, the \<open>alertMessage\<close> element
  carries the inline style \<open>display: none\<close> and is not visible; the alert box is another
  element, of class \<open>alert-box\<close> with no inline style, which the style sheet hides; so
  the page as loaded shows no alert, and the only visible elements with an identifier
  are the temperature and the distance.
\<close>

theorem initial_page_hides_alert:
  "map_option (\<lambda>e. (style_display e, visible e))
      (getElementById (PAGE_MAIN temperature distance alertMessage) ''alertMessage'') =
     Some (''none'', False) \<and>
   map_option (\<lambda>e. (className e, style_display e))
      (getElementById (PAGE_MAIN temperature distance alertMessage) ''alertBox'') =
     Some (''alert-box'', []) \<and>
   stylesheet_display ''alert-box'' = Some ''none'' \<and>
   getElementById (PAGE_MAIN temperature distance alertMessage) ''alertBox'' \<noteq>
     getElementById (PAGE_MAIN temperature distance alertMessage) ''alertMessage'' \<and>
   alert_region (page_load temperature distance alertMessage) = Some ([], False) \<and>
   map elem_id (filter visible (PAGE_MAIN temperature distance alertMessage)) =
     [''temperature'', ''distance'']"
  by (simp add: PAGE_MAIN_def page_load_def getElementById_def alert_region_def visible_def
      computed_display_def stylesheet_display_def)

section \<open>Determinism\<close>

text \<open>
  C10. What is on screen after a cycle is determined by the body of the response and by
  what was on screen before: two runs on the same body, from pages that show the same,
  end showing the same, whatever the status codes, the consoles and the rest of the two
  pages are.
\<close>

theorem display_deterministic:
  assumes "display_state pg1 = display_state pg2"
  shows "display_state (snd (fetchData parse (http_response code1 html) pg1)) =
         display_state (snd (fetchData parse (http_response code2 html) pg2))"
proof -
  have "display_state (snd (on_html parse html pg1)) = display_state (snd (on_html parse html pg2))"
    using assms by (rule on_html_display_cong)
  then show ?thesis
    by (simp add: display_state_fetchData)
qed

text \<open>
  Two pages that show 70, 10 and no alert, and differ in the hidden \<open>alertMessage\<close>
  element and in the console; the responses differ in the status code.
\<close>

theorem display_deterministic_witness:
  "display_state (page_load (js_literal ''70'') (js_literal ''10'') []) =
   display_state ((page_load (js_literal ''70'') (js_literal ''10'') (js_literal ''old''))
                    \<lparr>console := [NetworkError]\<rparr>) \<and>
   page_load (js_literal ''70'') (js_literal ''10'') [] \<noteq>
     (page_load (js_literal ''70'') (js_literal ''10'') (js_literal ''old''))
        \<lparr>console := [NetworkError]\<rparr> \<and>
   display_state (snd (fetchData
      (parser_returning (PAGE_MAIN (js_literal ''72'') (js_literal ''15'') (js_literal ''Hot'')))
      (http_response 200 [])
      (page_load (js_literal ''70'') (js_literal ''10'') []))) =
   display_state (snd (fetchData
      (parser_returning (PAGE_MAIN (js_literal ''72'') (js_literal ''15'') (js_literal ''Hot'')))
      (http_response 404 [])
      ((page_load (js_literal ''70'') (js_literal ''10'') (js_literal ''old''))
         \<lparr>console := [NetworkError]\<rparr>)))"
proof -
  have same: "display_state (page_load (js_literal ''70'') (js_literal ''10'') []) =
     display_state ((page_load (js_literal ''70'') (js_literal ''10'') (js_literal ''old''))
                      \<lparr>console := [NetworkError]\<rparr>)"
    by (simp add: run_defs)
  have differ: "page_load (js_literal ''70'') (js_literal ''10'') [] \<noteq>
     (page_load (js_literal ''70'') (js_literal ''10'') (js_literal ''old''))
        \<lparr>console := [NetworkError]\<rparr>"
    by (simp add: page_load_def)
  have "display_state (snd (fetchData
      (parser_returning (PAGE_MAIN (js_literal ''72'') (js_literal ''15'') (js_literal ''Hot'')))
      (http_response 200 [])
      (page_load (js_literal ''70'') (js_literal ''10'') []))) =
    display_state (snd (fetchData
      (parser_returning (PAGE_MAIN (js_literal ''72'') (js_literal ''15'') (js_literal ''Hot'')))
      (http_response 404 [])
      ((page_load (js_literal ''70'') (js_literal ''10'') (js_literal ''old''))
         \<lparr>console := [NetworkError]\<rparr>)))"
    using same by (rule display_deterministic)
  with same differ show ?thesis
    by (intro conjI)
qed

end
